theory Spec2Isabelle
  imports Complex_Main "HOL-Library.Multiset"
begin

section \<open>Strings and insertion-ordered sets\<close>

text \<open>
  JavaScript strings are modelled as \<^typ>\<open>string\<close>; a \<^typ>\<open>char\<close> stands for one code
  unit in the Latin-1 range. Labels are strings: an array element that is not a string is
  outside the model, and so is a label that names a property inherited from
  \<^verbatim>\<open>Object.prototype\<close> (the alias tables below are read as their own keys only).
\<close>

text \<open>The code units that \<^verbatim>\<open>String.prototype.trim\<close> strips (white space and line
  terminators below U+0100).\<close>

definition js_space :: "char \<Rightarrow> bool" where
  "js_space c = (c \<in> set [CHR 0x09, CHR 0x0A, CHR 0x0B, CHR 0x0C, CHR 0x0D, CHR 0x20, CHR 0xA0])"

definition trim :: "string \<Rightarrow> string" where
  "trim s = rev (dropWhile js_space (rev (dropWhile js_space s)))"

text \<open>A JavaScript \<^verbatim>\<open>Set\<close> of strings keeps its elements in insertion order: a list
  without repetitions, with \<^verbatim>\<open>has\<close> as membership.\<close>

definition set_add :: "string \<Rightarrow> string list \<Rightarrow> string list" where
  "set_add v s = (if v \<in> set s then s else s @ [v])"

definition set_delete :: "string \<Rightarrow> string list \<Rightarrow> string list" where
  "set_delete v s = removeAll v s"

definition has_any :: "string list \<Rightarrow> string list \<Rightarrow> bool" where
  "has_any ms s = list_ex (\<lambda>m. m \<in> set s) ms"

section \<open>Instrument finalizer\<close>

subsection \<open>The loops\<close>

text \<open>The loop \<^verbatim>\<open>for (const inst of merged)\<close>: skip empty labels, keep the first
  occurrence of each label. The set \<^verbatim>\<open>seen\<close> always holds exactly the elements of
  \<^verbatim>\<open>out\<close>, so one accumulator carries both.\<close>

fun stable_dedupe :: "string list \<Rightarrow> string list \<Rightarrow> string list" where
  "stable_dedupe out [] = out"
| "stable_dedupe out (inst # rest) =
     (if inst = [] then stable_dedupe out rest
      else if inst \<in> set out then stable_dedupe out rest
      else stable_dedupe (out @ [inst]) rest)"

text \<open>The two closing loops: push \<^verbatim>\<open>i\<close> when \<^verbatim>\<open>S.has(i) && !added.has(i)\<close>;
  \<^verbatim>\<open>added\<close> holds exactly the elements of \<^verbatim>\<open>final\<close>.\<close>

fun emit :: "string list \<Rightarrow> string list \<Rightarrow> string list \<Rightarrow> string list" where
  "emit S final [] = final"
| "emit S final (i # rest) =
     (if i \<in> set S \<and> i \<notin> set final then emit S (final @ [i]) rest
      else emit S final rest)"

definition BRASS_MEMBERS :: "string list" where
  "BRASS_MEMBERS = [''Trumpet'', ''Trombone'', ''French Horn'', ''Tuba'', ''Flugelhorn'',
     ''Cornet'', ''Trumpet (mute)'', ''Trumpet (muted)'']"

definition WOODWIND_MEMBERS :: "string list" where
  "WOODWIND_MEMBERS = [''Saxophone'', ''Alto Saxophone'', ''Tenor Saxophone'',
     ''Baritone Saxophone'', ''Flute'', ''Clarinet'', ''Oboe'', ''Bassoon'', ''Piccolo'']"

definition BOWED :: "string list" where
  "BOWED = [''Violin'', ''Viola'', ''Cello'', ''Double Bass'']"

definition PADS :: "string list" where
  "PADS = [''Organ'', ''Electric organ'', ''Hammond organ'', ''Keyboard'', ''Synth'']"

subsection \<open>\<^verbatim>\<open>app/analysis/finalize_instruments.js\<close>\<close>

definition CANON_ALIASES :: "(string \<times> string) list" where
  "CANON_ALIASES =
    [(''Drum set'', ''Drum Kit (acoustic)''),
     (''Drums'', ''Drum Kit (acoustic)''),
     (''Electric organ'', ''Organ''),
     (''Hammond organ'', ''Organ''),
     (''Strings'', ''Strings (section)''),
     (''Brass'', ''Brass (section)''),
     (''Guitars'', ''Electric Guitar'')]"

definition normalize :: "string \<Rightarrow> string" where
  "normalize label =
     (let t = trim label in case map_of CANON_ALIASES t of Some v \<Rightarrow> v | None \<Rightarrow> t)"

definition brass_step :: "string list \<Rightarrow> string list" where
  "brass_step outSet =
     (if has_any BRASS_MEMBERS outSet \<or> ''Brass (section)'' \<in> set outSet
      then set_add ''Brass'' (set_add ''Brass (section)'' (fold set_delete BRASS_MEMBERS outSet))
      else outSet)"

definition woodwind_step :: "string list \<Rightarrow> string list" where
  "woodwind_step outSet =
     (if has_any WOODWIND_MEMBERS outSet \<or> ''Woodwinds (section)'' \<in> set outSet
      then set_add ''Woodwinds''
             (set_add ''Woodwinds (section)'' (fold set_delete WOODWIND_MEMBERS outSet))
      else outSet)"

definition strings_guard :: "string list \<Rightarrow> string list" where
  "strings_guard S =
     (if ''Strings (section)'' \<in> set S \<and> \<not> has_any BOWED S \<and> has_any PADS S
      then set_delete ''Strings (section)'' S else S)"

definition finalizeInstruments :: "string list \<Rightarrow> string list \<Rightarrow> string list \<Rightarrow> string list" where
  "finalizeInstruments ensembleInstruments probeRescues additional =
     (let merged = map normalize (ensembleInstruments @ probeRescues @ additional);
          out = stable_dedupe [] merged;
          S = strings_guard (woodwind_step (brass_step out))
      in emit S (emit S [] out) [''Brass'', ''Woodwinds''])"

section \<open>Library store: merging a track record (jsondb.js)\<close>

text \<open>
  The values of the list-carrying fields: an absent key (\<^verbatim>\<open>undefined\<close>), a key
  holding \<^verbatim>\<open>null\<close>, a string, or an array of strings. \<^verbatim>\<open>String(v)\<close> is the identity
  on the elements.
\<close>

datatype jval = Undef | Null | Str string | Arr "string list"

definition truthy :: "jval \<Rightarrow> bool" where
  "truthy v = (case v of Undef \<Rightarrow> False | Null \<Rightarrow> False | Str s \<Rightarrow> s \<noteq> [] | Arr xs \<Rightarrow> True)"

text \<open>The test \<^verbatim>\<open>v && Array.isArray(v) && v.length > 0\<close>.\<close>

definition nonempty_array :: "jval \<Rightarrow> bool" where
  "nonempty_array v = (case v of Arr xs \<Rightarrow> xs \<noteq> [] | _ \<Rightarrow> False)"

definition toArray :: "jval \<Rightarrow> string list" where
  "toArray v = (if \<not> truthy v then [] else case v of Arr xs \<Rightarrow> xs | Str s \<Rightarrow> [s] | _ \<Rightarrow> [])"

fun unionInto :: "string list \<Rightarrow> string list \<Rightarrow> string list" where
  "unionInto arr [] = arr"
| "unionInto arr (v # values) =
     (if v \<notin> set arr then unionInto (arr @ [v]) values else unionInto arr values)"

record creative_rec =
  genre :: jval
  mood :: jval
  vocals :: jval
  theme :: jval
  instrument :: jval
  suggestedInstruments :: jval

record analysis_rec =
  an_finalInstruments :: jval
  an_instruments :: jval
  an_final_instruments :: jval

text \<open>
  A track record, reduced to the fields that \<^verbatim>\<open>upsertTrack\<close> and the list merge of
  \<^verbatim>\<open>mergeTrack\<close> read: the path, the \<^verbatim>\<open>creative\<close> object (an absent one reads as
  \<^verbatim>\<open>{}\<close>, all fields \<open>Undef\<close>), the optional \<^verbatim>\<open>analysis\<close> object and the two root
  instrument lists. The other scalar fields, narrative, confidence and the time stamps are
  left out.
\<close>

record track_rec =
  path :: string
  creative :: creative_rec
  analysis :: "analysis_rec option"
  finalInstruments :: jval
  instruments :: jval

definition empty_creative :: creative_rec where
  "empty_creative = \<lparr>genre = Undef, mood = Undef, vocals = Undef, theme = Undef,
     instrument = Undef, suggestedInstruments = Undef\<rparr>"

text \<open>The default \<^verbatim>\<open>oldRec = {}\<close>.\<close>

definition empty_track :: track_rec where
  "empty_track = \<lparr>path = [], creative = empty_creative, analysis = None,
     finalInstruments = Undef, instruments = Undef\<rparr>"

text \<open>\<^verbatim>\<open>newRec.analysis?.f\<close>\<close>

definition an_field :: "(analysis_rec \<Rightarrow> jval) \<Rightarrow> track_rec \<Rightarrow> jval" where
  "an_field f r = (case analysis r of None \<Rightarrow> Undef | Some a \<Rightarrow> f a)"

text \<open>The chain of \<^verbatim>\<open>if / else if\<close> that selects \<^verbatim>\<open>instrumentsToMerge\<close>.\<close>

definition instrumentsToMerge :: "track_rec \<Rightarrow> jval" where
  "instrumentsToMerge newRec =
     (if nonempty_array (an_field an_finalInstruments newRec) then an_field an_finalInstruments newRec
      else if nonempty_array (an_field an_instruments newRec) then an_field an_instruments newRec
      else if nonempty_array (finalInstruments newRec) then finalInstruments newRec
      else if nonempty_array (instruments newRec) then instruments newRec
      else if nonempty_array (suggestedInstruments (creative newRec))
        then suggestedInstruments (creative newRec)
      else if truthy (instrument (creative newRec)) then instrument (creative newRec)
      else Arr [])"

text \<open>\<^verbatim>\<open>{ ...oldRec.analysis, ...newRec.analysis }\<close> on the modelled keys: a key
  present in the new object wins, also when it holds \<^verbatim>\<open>null\<close>.\<close>

definition spread_analysis :: "analysis_rec option \<Rightarrow> analysis_rec \<Rightarrow> analysis_rec" where
  "spread_analysis old new =
     (let pick = (\<lambda>f. if f new \<noteq> Undef then f new
                       else case old of None \<Rightarrow> Undef | Some a \<Rightarrow> f a)
      in \<lparr>an_finalInstruments = pick an_finalInstruments,
          an_instruments = pick an_instruments,
          an_final_instruments = pick an_final_instruments\<rparr>)"

definition mergeTrack :: "track_rec \<Rightarrow> track_rec \<Rightarrow> track_rec" where
  "mergeTrack oldRec newRec =
     (let cOld = creative oldRec;
          cNew = creative newRec;
          union = (\<lambda>k. Arr (unionInto (toArray (k cOld)) (toArray (k cNew))));
          cOut = cOld\<lparr>genre := union genre, mood := union mood, vocals := union vocals,
                      theme := union theme,
                      instrument := Arr (unionInto (toArray (instrument cOld))
                                          (toArray (instrumentsToMerge newRec)))\<rparr>
      in oldRec\<lparr>path := (if path newRec \<noteq> [] then path newRec else path oldRec),
                 creative := cOut,
                 analysis := (case analysis newRec of None \<Rightarrow> analysis oldRec
                              | Some a \<Rightarrow> Some (spread_analysis (analysis oldRec) a))\<rparr>)"

text \<open>
  The two readings of the precedence list. \<open>first_nonempty\<close> returns the first source that
  is a non-empty array and falls back to a last, legacy source. \<open>stated_sources\<close> is the
  order as the specification words it; \<open>code_sources\<close> differs in its first entry, the
  camel-case \<^verbatim>\<open>analysis.finalInstruments\<close>.
\<close>

fun first_nonempty :: "jval list \<Rightarrow> jval \<Rightarrow> string list" where
  "first_nonempty [] legacy = toArray legacy"
| "first_nonempty (v # vs) legacy = (if nonempty_array v then toArray v else first_nonempty vs legacy)"

definition stated_sources :: "track_rec \<Rightarrow> jval list" where
  "stated_sources r = [an_field an_final_instruments r, an_field an_instruments r,
     finalInstruments r, instruments r, suggestedInstruments (creative r)]"

definition code_sources :: "track_rec \<Rightarrow> jval list" where
  "code_sources r = [an_field an_finalInstruments r, an_field an_instruments r,
     finalInstruments r, instruments r, suggestedInstruments (creative r)]"

text \<open>An example record: under \<^verbatim>\<open>analysis\<close> the snake-case key
  \<^verbatim>\<open>final_instruments\<close> and \<^verbatim>\<open>instruments\<close> are set, the camel-case
  \<^verbatim>\<open>finalInstruments\<close> is absent.\<close>

definition example_track :: track_rec where
  "example_track = empty_track\<lparr>path := ''/Music/Song.mp3'',
     analysis := Some \<lparr>an_finalInstruments = Undef, an_instruments = Arr [''Organ''],
                       an_final_instruments = Arr [''Piano'']\<rparr>\<rparr>"

section \<open>Track keys (jsondb.js)\<close>

text \<open>\<^verbatim>\<open>String.prototype.toLowerCase\<close> on Latin-1 code units: A to Z, and the capital
  letters U+00C0 to U+00DE except the multiplication sign U+00D7, move up by 32.\<close>

definition lower_char :: "char \<Rightarrow> char" where
  "lower_char c =
     (let n = (of_char c :: nat)
      in if (65 \<le> n \<and> n \<le> 90) \<or> (192 \<le> n \<and> n \<le> 222 \<and> n \<noteq> 215)
         then char_of (n + 32) else c)"

definition toLowerCase :: "string \<Rightarrow> string" where
  "toLowerCase s = map lower_char s"

text \<open>\<^verbatim>\<open>n.replace(/\\/g, '/')\<close>: every backslash (0x5C) becomes a forward slash.\<close>

definition replace_backslashes :: "string \<Rightarrow> string" where
  "replace_backslashes s = map (\<lambda>c. if c = CHR 0x5C then CHR ''/'' else c) s"

text \<open>
  \<^verbatim>\<open>path.normalize\<close> belongs to the Node.js runtime, not to the repository, so
  \<open>normalizeKey\<close> takes it as a parameter. \<open>posix_normalize\<close> follows the POSIX flavour of
  Node's \<^verbatim>\<open>lib/path.js\<close> (the application is packaged for macOS): the path is cut at
  forward slashes, empty and \<open>"."\<close> segments are dropped, \<open>".."\<close> removes the segment
  before it (or is kept in front of a relative path), and a leading and a trailing slash
  are kept. A backslash is an ordinary character of a segment.
\<close>

fun split_slash :: "string \<Rightarrow> string list" where
  "split_slash [] = [[]]"
| "split_slash (c # cs) =
     (if c = CHR ''/'' then [] # split_slash cs
      else case split_slash cs of [] \<Rightarrow> [[c]] | s # ss \<Rightarrow> (c # s) # ss)"

fun join_slash :: "string list \<Rightarrow> string" where
  "join_slash [] = []"
| "join_slash [s] = s"
| "join_slash (s # t # ss) = s @ ''/'' @ join_slash (t # ss)"

definition segment_step :: "bool \<Rightarrow> string list \<Rightarrow> string \<Rightarrow> string list" where
  "segment_step allowAboveRoot res seg =
     (if seg = [] \<or> seg = ''.'' then res
      else if seg = ''..'' then
        (if res \<noteq> [] \<and> last res \<noteq> ''..'' then butlast res
         else if allowAboveRoot then res @ [''..''] else res)
      else res @ [seg])"

definition normalizeString :: "string \<Rightarrow> bool \<Rightarrow> string" where
  "normalizeString p allowAboveRoot =
     join_slash (foldl (segment_step allowAboveRoot) [] (split_slash p))"

definition posix_normalize :: "string \<Rightarrow> string" where
  "posix_normalize p =
     (if p = [] then ''.''
      else let isAbsolute = (hd p = CHR ''/'');
               trailingSeparator = (last p = CHR ''/'');
               q = normalizeString p (\<not> isAbsolute)
           in if q = [] then (if isAbsolute then ''/'' else if trailingSeparator then ''./'' else ''.'')
              else (if isAbsolute then ''/'' else []) @ q @ (if trailingSeparator then ''/'' else []))"

definition normalizeKey :: "(string \<Rightarrow> string) \<Rightarrow> string \<Rightarrow> string" where
  "normalizeKey path_normalize pth =
     (if pth = [] then [] else toLowerCase (replace_backslashes (path_normalize pth)))"

text \<open>The rewriting named in the specification: backslashes replaced, then lower case.\<close>

definition rewrite_path :: "string \<Rightarrow> string" where
  "rewrite_path p = toLowerCase (replace_backslashes p)"

subsection \<open>The key of \<^verbatim>\<open>lib/pathNormalize\<close>\<close>

text \<open>
  The second \<^verbatim>\<open>normalizeKey\<close>, used by \<^verbatim>\<open>mergeFromTrackJson\<close> and the migration
  script. \<^verbatim>\<open>path.dirname\<close> and \<^verbatim>\<open>path.basename\<close> are built-ins of Node.js and
  parameters here; \<open>posix_dirname\<close> and \<open>posix_basename\<close> follow the POSIX flavour of
  Node's \<^verbatim>\<open>lib/path.js\<close>. Both first skip trailing slashes; the base name is what
  follows the last remaining slash, the directory name what precedes it (\<open>"."\<close> or
  \<open>"/"\<close> when there is none).
\<close>

definition posix_basename :: "string \<Rightarrow> string" where
  "posix_basename p =
     rev (takeWhile (\<lambda>c. c \<noteq> CHR ''/'') (dropWhile (\<lambda>c. c = CHR ''/'') (rev p)))"

definition posix_dirname :: "string \<Rightarrow> string" where
  "posix_dirname p =
     (if p = [] then ''.''
      else let hasRoot = (hd p = CHR ''/'');
               r = dropWhile (\<lambda>c. c \<noteq> CHR ''/'') (dropWhile (\<lambda>c. c = CHR ''/'') (rev (tl p)))
           in if r = [] then (if hasRoot then ''/'' else ''.'')
              else if hasRoot \<and> tl r = [] then ''//''
              else hd p # rev (tl r))"

text \<open>\<^verbatim>\<open>replace(/\s+/g, ' ')\<close>: each run of white space becomes one space; the flag
  tells whether the previous character was white space.\<close>

fun collapse_spaces :: "bool \<Rightarrow> string \<Rightarrow> string" where
  "collapse_spaces inRun [] = []"
| "collapse_spaces inRun (c # cs) =
     (if js_space c then (if inRun then collapse_spaces True cs else CHR '' '' # collapse_spaces True cs)
      else c # collapse_spaces False cs)"

text \<open>The chain of \<^verbatim>\<open>normalizeStem\<close> before the final lower-casing: parentheses
  removed, underscores to spaces, runs of white space collapsed, trimmed.\<close>

definition stem_core :: "string \<Rightarrow> string" where
  "stem_core name =
     trim (collapse_spaces False
       (map (\<lambda>c. if c = CHR ''_'' then CHR '' '' else c)
         (filter (\<lambda>c. c \<noteq> CHR ''('' \<and> c \<noteq> CHR '')'') name)))"

definition normalizeStem :: "string \<Rightarrow> string" where
  "normalizeStem name = toLowerCase (stem_core name)"

definition normalizeKey_pathNormalize ::
  "(string \<Rightarrow> string) \<Rightarrow> (string \<Rightarrow> string) \<Rightarrow> string \<Rightarrow> string" where
  "normalizeKey_pathNormalize path_dirname path_basename filePath =
     toLowerCase (path_dirname filePath @ ''/'' @ normalizeStem (path_basename filePath))"

text \<open>A path with one backslash, \<^verbatim>\<open>a\b\<close>.\<close>

definition backslash_path :: string where
  "backslash_path = [CHR ''a'', CHR 0x5C, CHR ''b'']"

datatype error = PathRequired

text \<open>
  \<^verbatim>\<open>upsertTrack\<close> on the store's \<^verbatim>\<open>tracks\<close> object; the result carries the key and
  the updated object. \<^verbatim>\<open>tracks\<close> is a plain object: the assignment
  \<^verbatim>\<open>db.tracks[key] = merged\<close> with the key \<^verbatim>\<open>__proto__\<close> sets the prototype and stores
  no entry, unless the object already has an entry of its own under that key. Reading
  \<^verbatim>\<open>db.tracks[key]\<close> for a key without an entry gives \<^verbatim>\<open>undefined\<close> or an inherited
  object without track fields, which \<^verbatim>\<open>mergeTrack\<close> reads like the empty record.
\<close>

definition upsertTrack ::
  "(string \<Rightarrow> string) \<Rightarrow> (string \<rightharpoonup> track_rec) \<Rightarrow> track_rec
   \<Rightarrow> error + (string \<times> (string \<rightharpoonup> track_rec))" where
  "upsertTrack path_normalize tracks rec =
     (let key = normalizeKey path_normalize (path rec)
      in if key = [] then Inl PathRequired
         else let prev = (case tracks key of None \<Rightarrow> empty_track | Some r \<Rightarrow> r);
                  merged = mergeTrack prev rec
              in Inr (key, if key = ''__proto__'' \<and> tracks key = None then tracks
                           else tracks(key \<mapsto> merged)))"

text \<open>A path with two backslashes in a row, \<^verbatim>\<open>a\\b\<close>.\<close>

definition double_backslash_path :: string where
  "double_backslash_path = [CHR ''a'', CHR 0x5C, CHR 0x5C, CHR ''b'']"

text \<open>A path that mixes separators and letter case.\<close>

definition mixed_path :: string where
  "mixed_path = ''/Music'' @ [CHR 0x5C] @ ''Song.MP3''"

section \<open>Tempo: the ID3 override (ffcalc.js)\<close>

text \<open>
  JavaScript numbers are modelled by exact rationals; a non-finite number is a value of
  its own where the code tests for it. \<^verbatim>\<open>Math.round\<close> rounds to the nearest integer,
  a tie towards \<open>+\<infinity>\<close>.
\<close>

definition js_round :: "rat \<Rightarrow> int" where
  "js_round x = \<lfloor>x + 1 / 2\<rfloor>"

text \<open>The value of \<^verbatim>\<open>id3Tags?.bpm\<close>: absent or null, a finite number, a non-finite
  number, a string, or anything else.\<close>

datatype tag_bpm = TagAbsent | TagNum rat | TagNonFinite | TagStr string | TagOther

definition is_digit :: "char \<Rightarrow> bool" where
  "is_digit c = (48 \<le> (of_char c :: nat) \<and> (of_char c :: nat) \<le> 57)"

definition digits_value :: "string \<Rightarrow> nat" where
  "digits_value ds = foldl (\<lambda>a c. 10 * a + (of_char c - 48)) 0 ds"

text \<open>The first match of \<^verbatim>\<open>/([0-9]+(?:\.[0-9]+)?)/\<close>: the first run of digits and, when
  a dot and a digit follow it, the run of digits after the dot.\<close>

definition match_number :: "string \<Rightarrow> (string \<times> string) option" where
  "match_number v =
     (let s = dropWhile (\<lambda>c. \<not> is_digit c) v
      in if s = [] then None
         else let ip = takeWhile is_digit s; rest = dropWhile is_digit s
              in case rest of
                   d # r \<Rightarrow> if d = CHR ''.'' \<and> r \<noteq> [] \<and> is_digit (hd r)
                            then Some (ip, takeWhile is_digit r) else Some (ip, [])
                 | [] \<Rightarrow> Some (ip, []))"

text \<open>\<^verbatim>\<open>Number(m[1])\<close> on a decimal literal, read exactly (JavaScript rounds it to the
  nearest double, which shows only beyond 15 significant digits).\<close>

definition decimal_value :: "string \<times> string \<Rightarrow> rat" where
  "decimal_value m =
     of_nat (digits_value (fst m)) + of_nat (digits_value (snd m)) / 10 ^ length (snd m)"

definition parseId3BpmSafe :: "tag_bpm \<Rightarrow> int option" where
  "parseId3BpmSafe v =
     (case v of
        TagAbsent \<Rightarrow> None
      | TagNum n \<Rightarrow> if n > 0 \<and> n < 400 then Some (js_round n) else None
      | TagNonFinite \<Rightarrow> None
      | TagStr s \<Rightarrow>
          (case match_number s of
             None \<Rightarrow> None
           | Some m \<Rightarrow> let n = decimal_value m
                       in if n > 0 \<and> n < 400 then Some (js_round n) else None)
      | TagOther \<Rightarrow> None)"

record tempo_fields =
  bpm :: "rat option"
  tempo_source :: string
  tempo_alt_half_bpm :: "int option"
  tempo_alt_double_bpm :: "int option"

text \<open>The test \<^verbatim>\<open>Number.isFinite(x) && x >= 50 && x <= 200 ? x : ''\<close>, the empty string
  ending as an absent field.\<close>

definition alt_in_range :: "int option \<Rightarrow> int option" where
  "alt_in_range x = (case x of None \<Rightarrow> None | Some h \<Rightarrow> if 50 \<le> h \<and> h \<le> 200 then Some h else None)"

text \<open>
  The block \<^verbatim>\<open>BPM OVERRIDE\<close> of \<^verbatim>\<open>completeAnalysisInBackground\<close> and the tempo fields
  of the record it builds. \<open>finalBpm\<close> is the estimator's output (\<open>None\<close> for
  \<^verbatim>\<open>null\<close>), \<open>tempoSource\<close> its label.
\<close>

definition bpm_override :: "rat option \<Rightarrow> string \<Rightarrow> tag_bpm \<Rightarrow> tempo_fields" where
  "bpm_override finalBpm tempoSource tag =
     (let id3Parsed = parseId3BpmSafe tag;
          overridden = (case id3Parsed of
                          None \<Rightarrow> (finalBpm, tempoSource)
                        | Some t \<Rightarrow> if finalBpm \<noteq> Some (of_int t) then (Some (of_int t), ''id3'')
                                    else (finalBpm, tempoSource));
          half = map_option (\<lambda>b. js_round (b * (1 / 2))) (fst overridden);
          dbl = map_option (\<lambda>b. js_round (b * 2)) (fst overridden)
      in \<lparr>bpm = fst overridden, tempo_source = snd overridden,
          tempo_alt_half_bpm = alt_in_range half, tempo_alt_double_bpm = alt_in_range dbl\<rparr>)"

section \<open>Creative client: the confidence value (ffcalc.js)\<close>

text \<open>
  The raw \<^verbatim>\<open>confidence\<close> of the parsed JSON reply: a finite number, an overflowed number
  literal (\<^verbatim>\<open>JSON.parse\<close> reads \<open>1e999\<close> as \<open>Infinity\<close>), a string, or any other value.
  \<open>NaN\<close> is not a JSON value.
\<close>

datatype raw_confidence = ConfNum rat | ConfPosInf | ConfNegInf | ConfStr string | ConfOther

text \<open>A number that may have overflowed.\<close>

datatype jsnum = Finite rat | PosInfinity | NegInfinity

text \<open>\<^verbatim>\<open>raw.replace('%', '')\<close> removes the first percent sign only.\<close>

fun remove_first_percent :: "string \<Rightarrow> string" where
  "remove_first_percent [] = []"
| "remove_first_percent (c # cs) = (if c = CHR ''%'' then cs else c # remove_first_percent cs)"

text \<open>The branch \<^verbatim>\<open>x > 1 ? x / 100 : x\<close>; the quotient is exact here, rounded to a
  double in JavaScript.\<close>

definition percent_scale :: "rat \<Rightarrow> rat" where
  "percent_scale x = (if x > 1 then x / 100 else x)"

text \<open>
  \<^verbatim>\<open>parseFloat\<close> is a built-in of the language and a parameter here: it returns the
  number read from the front of the string, or \<open>None\<close> when the result is not finite
  (\<open>NaN\<close>, \<open>Infinity\<close>).
\<close>

definition parseConfidence :: "(string \<Rightarrow> rat option) \<Rightarrow> raw_confidence \<Rightarrow> jsnum" where
  "parseConfidence parseFloat raw =
     (case raw of
        ConfNum n \<Rightarrow> Finite (percent_scale n)
      | ConfPosInf \<Rightarrow> PosInfinity
      | ConfNegInf \<Rightarrow> NegInfinity
      | ConfStr s \<Rightarrow>
          (let cleaned = trim (remove_first_percent s)
           in case parseFloat cleaned of
                Some num \<Rightarrow> Finite (percent_scale num)
              | None \<Rightarrow> Finite (7 / 10))
      | ConfOther \<Rightarrow> Finite (7 / 10))"

text \<open>\<^verbatim>\<open>Math.min(1, Math.max(0, x))\<close>\<close>

definition clamp01 :: "jsnum \<Rightarrow> rat" where
  "clamp01 x = (case x of Finite q \<Rightarrow> min 1 (max 0 q) | PosInfinity \<Rightarrow> 1 | NegInfinity \<Rightarrow> 0)"

definition stored_confidence :: "(string \<Rightarrow> rat option) \<Rightarrow> raw_confidence \<Rightarrow> rat" where
  "stored_confidence parseFloat raw = clamp01 (parseConfidence parseFloat raw)"

text \<open>The numeric branch as the specification words it: halved when greater than 1.\<close>

definition stated_halving :: "rat \<Rightarrow> rat" where
  "stated_halving x = (if x > 1 then x / 2 else x)"

text \<open>An instance of \<open>parseFloat\<close> for unsigned decimal literals, enough to run examples:
  the digits at the front of the string, with an optional fraction.\<close>

definition parseFloat_decimal :: "string \<Rightarrow> rat option" where
  "parseFloat_decimal s =
     (if s = [] \<or> \<not> is_digit (hd s) then None
      else map_option decimal_value (match_number s))"

section \<open>Background phases of one track (ffcalc.js)\<close>

text \<open>
  \<^verbatim>\<open>completeAnalysisInBackground\<close> runs after the Technical phase of a track. What it
  does to the order of the two background phases is modelled on the track's own trace of
  phase events. \<^verbatim>\<open>await f(...)\<close> starts \<^verbatim>\<open>f\<close> and resumes the caller only when
  \<^verbatim>\<open>f\<close> has completed, so an awaited call adds its start and its completion to the
  trace before the next statement runs. The reply of the language model and the
  classifier's answer to the creative hints are parameters.
\<close>

datatype phase_event =
  CreativeStarted | CreativeCompleted | InstrumentationStarted | InstrumentationCompleted

text \<open>\<^verbatim>\<open>creativeResult = await runCreativeAnalysis(...)\<close>\<close>

definition await_runCreativeAnalysis :: "'c \<Rightarrow> phase_event list \<Rightarrow> 'c \<times> phase_event list" where
  "await_runCreativeAnalysis reply trace = (reply, trace @ [CreativeStarted, CreativeCompleted])"

text \<open>\<^verbatim>\<open>instrumentationResult = await runInstrumentationAnalysis(..., creativeResult.data)\<close>\<close>

definition await_runInstrumentationAnalysis ::
  "('c \<Rightarrow> 'i) \<Rightarrow> 'c \<Rightarrow> phase_event list \<Rightarrow> 'i \<times> phase_event list" where
  "await_runInstrumentationAnalysis classify creativeData trace =
     (classify creativeData, trace @ [InstrumentationStarted, InstrumentationCompleted])"

text \<open>The two branches on \<^verbatim>\<open>INSTRUMENTATION_MODE\<close>, as written.\<close>

definition background_phases ::
  "string \<Rightarrow> 'c \<Rightarrow> ('c \<Rightarrow> 'i) \<Rightarrow> phase_event list \<Rightarrow> ('c \<times> 'i) \<times> phase_event list" where
  "background_phases INSTRUMENTATION_MODE reply classify trace =
     (if INSTRUMENTATION_MODE = ''SEQUENTIAL'' then
        (let (creativeResult, t1) = await_runCreativeAnalysis reply trace;
             (instrumentationResult, t2) =
                await_runInstrumentationAnalysis classify creativeResult t1
         in ((creativeResult, instrumentationResult), t2))
      else
        (let (creativeResult, t1) = await_runCreativeAnalysis reply trace;
             (instrumentationResult, t2) =
                await_runInstrumentationAnalysis classify creativeResult t1
         in ((creativeResult, instrumentationResult), t2)))"

text \<open>\<open>occurs_before a b t\<close>: event \<open>a\<close> occurs in \<open>t\<close>, and no \<open>b\<close> occurs before its first
  occurrence.\<close>

definition occurs_before :: "phase_event \<Rightarrow> phase_event \<Rightarrow> phase_event list \<Rightarrow> bool" where
  "occurs_before a b t = (a \<in> set t \<and> b \<notin> set (takeWhile (\<lambda>e. e \<noteq> a) t))"

section \<open>Double-precision arithmetic\<close>

text \<open>
  The numbers of the ensemble adapter are IEEE 754 doubles. A finite double is a rational
  number, and a comparison of two doubles compares these rationals. An addition, a
  multiplication and a decimal literal give the exact result rounded to the nearest
  double, a tie going to the even mantissa. \<open>round_double\<close> is this rounding for a
  mantissa of 53 bits; the range of the exponent is not limited (no overflow to
  \<open>Infinity\<close>, no subnormal numbers), which the probabilities, ratios and scores of
  this section stay far from.
\<close>

function bitlen :: "int \<Rightarrow> int" where
  "bitlen n = (if n \<le> 0 then 0 else 1 + bitlen (n div 2))"
  by pat_completeness auto
termination
  by (relation "measure nat") auto

definition pow2 :: "int \<Rightarrow> rat" where
  "pow2 e = (if 0 \<le> e then 2 ^ nat e else 1 / 2 ^ nat (- e))"

text \<open>The \<open>e\<close> with \<open>2\<^sup>e \<le> q < 2\<^sup>e\<^sup>+\<^sup>1\<close>, for a positive \<open>q\<close>.\<close>

definition binary_exponent :: "rat \<Rightarrow> int" where
  "binary_exponent q =
     (let d = bitlen (fst (quotient_of q)) - bitlen (snd (quotient_of q))
      in if pow2 d \<le> q then d else d - 1)"

definition round_half_even :: "rat \<Rightarrow> int" where
  "round_half_even x =
     (let f = \<lfloor>x\<rfloor>; r = x - of_int f
      in if r < 1 / 2 then f else if r > 1 / 2 then f + 1 else if even f then f else f + 1)"

definition round_double :: "rat \<Rightarrow> rat" where
  "round_double q =
     (if q = 0 then 0
      else let m = \<bar>q\<bar>; e = binary_exponent m;
               n = round_half_even (m * pow2 (52 - e))
           in (if q < 0 then - 1 else 1) * of_int n * pow2 (e - 52))"

definition fadd :: "rat \<Rightarrow> rat \<Rightarrow> rat" where
  "fadd a b = round_double (a + b)"

definition fmul :: "rat \<Rightarrow> rat \<Rightarrow> rat" where
  "fmul a b = round_double (a * b)"

section \<open>Ensemble adapter: the mix-only rescue\<close>

text \<open>
  The per-model statistics of \<^verbatim>\<open>decision_trace.per_model\<close> hold the doubles that
  \<^verbatim>\<open>JSON.parse\<close> has read. A missing model or table reads as an empty one
  (\<^verbatim>\<open>|| {}\<close>), a missing entry as 0 (\<^verbatim>\<open>|| 0\<close>). \<^verbatim>\<open>decision_trace.boosts\<close> is the
  list of its entries in the order of \<^verbatim>\<open>Object.values\<close>, each with an optional
  \<^verbatim>\<open>added\<close> and an optional \<^verbatim>\<open>add\<close> array of labels.
\<close>

record model_stats =
  mean_probs :: "string \<rightharpoonup> rat"
  pos_ratio :: "string \<rightharpoonup> rat"

record boost_entry =
  boost_added :: "string list option"
  boost_add :: "string list option"

record decision_trace =
  panns :: model_stats
  yamnet :: model_stats
  boosts :: "boost_entry list"

definition or0 :: "rat option \<Rightarrow> rat" where
  "or0 v = (case v of None \<Rightarrow> 0 | Some x \<Rightarrow> x)"

definition MEAN_ANY :: rat where "MEAN_ANY = round_double (6 / 1000)"
definition POS_ANY :: rat where "POS_ANY = round_double (2 / 100)"
definition PANN_POS_BONUS :: rat where "PANN_POS_BONUS = round_double (6 / 100)"
definition MAX_PICKS :: nat where "MAX_PICKS = 4"

definition mean_combined :: "decision_trace \<Rightarrow> string \<Rightarrow> rat" where
  "mean_combined t k = fadd (or0 (mean_probs (panns t) k)) (or0 (mean_probs (yamnet t) k))"

definition pos_combined :: "decision_trace \<Rightarrow> string \<Rightarrow> rat" where
  "pos_combined t k = fadd (or0 (pos_ratio (panns t) k)) (or0 (pos_ratio (yamnet t) k))"

definition pass :: "decision_trace \<Rightarrow> string \<Rightarrow> bool" where
  "pass t k = ((mean_combined t k \<ge> MEAN_ANY \<and> pos_combined t k \<ge> POS_ANY)
               \<or> or0 (pos_ratio (panns t) k) \<ge> PANN_POS_BONUS)"

text \<open>\<^verbatim>\<open>picks.sort((a,b) => b.score - a.score)\<close>: a stable sort, highest score first;
  the difference of two doubles has the sign of their exact difference.\<close>

definition sort_by_score_desc :: "('a \<times> rat) list \<Rightarrow> ('a \<times> rat) list" where
  "sort_by_score_desc ps = sort_key (\<lambda>p. - snd p) ps"

subsection \<open>\<^verbatim>\<open>mixOnlyRescue\<close> and its call in \<^verbatim>\<open>runEnsemble\<close>\<close>

definition CANDIDATES :: "(string \<times> string) list" where
  "CANDIDATES =
    [(''electric_guitar'', ''Electric Guitar''),
     (''acoustic_guitar'', ''Acoustic Guitar''),
     (''bass_guitar'', ''Bass Guitar''),
     (''drum_kit'', ''Drum Kit (acoustic)''),
     (''piano'', ''Piano''),
     (''organ'', ''Organ'')]"

text \<open>The loop over \<^verbatim>\<open>CANDIDATES\<close>: a passing candidate is pushed as its label with the
  score \<^verbatim>\<open>mean + pos\<close>.\<close>

definition mix_picks :: "decision_trace \<Rightarrow> (string \<times> rat) list" where
  "mix_picks t =
     map (\<lambda>(key, label). (label, fadd (mean_combined t key) (pos_combined t key)))
       (filter (\<lambda>(key, label). pass t key) CANDIDATES)"

definition mixOnlyRescue :: "decision_trace option \<Rightarrow> string list" where
  "mixOnlyRescue decisionTrace =
     (case decisionTrace of
        None \<Rightarrow> []
      | Some t \<Rightarrow> map fst (take MAX_PICKS (sort_by_score_desc (mix_picks t))))"

text \<open>
  The booster merge of \<^verbatim>\<open>normalizePyResult\<close>: the labels of an entry are its
  \<^verbatim>\<open>added\<close> array, else its \<^verbatim>\<open>add\<close> array, else none; a label is pushed when it is
  a non-empty string that the list does not include yet.
\<close>

definition booster_labels :: "boost_entry \<Rightarrow> string list" where
  "booster_labels e =
     (case boost_added e of Some xs \<Rightarrow> xs
      | None \<Rightarrow> (case boost_add e of Some ys \<Rightarrow> ys | None \<Rightarrow> []))"

fun push_boosted :: "string list \<Rightarrow> string list \<Rightarrow> string list" where
  "push_boosted insts [] = insts"
| "push_boosted insts (inst # rest) =
     (if inst \<noteq> [] \<and> inst \<notin> set insts then push_boosted (insts @ [inst]) rest
      else push_boosted insts rest)"

definition normalizePyResult_instruments :: "string list \<Rightarrow> decision_trace \<Rightarrow> string list" where
  "normalizePyResult_instruments rawInstruments t =
     foldl push_boosted rawInstruments (map booster_labels (boosts t))"

text \<open>The instruments of \<^verbatim>\<open>runEnsemble\<close> after the rescue step, from the instruments
  of the classifier's output, its \<^verbatim>\<open>used_demucs\<close> flag and its decision trace (an absent
  trace is the empty one).\<close>

definition runEnsemble_instruments :: "string list \<Rightarrow> bool \<Rightarrow> decision_trace \<Rightarrow> string list" where
  "runEnsemble_instruments rawInstruments usedDemucs t =
     (let insts = normalizePyResult_instruments rawInstruments t
      in if insts = [] \<and> \<not> usedDemucs
         then (let rescue = mixOnlyRescue (Some t)
               in if rescue \<noteq> [] then rescue else insts)
         else insts)"

subsection \<open>The rescue block of \<^verbatim>\<open>analyzeWithEnsemble\<close>\<close>

definition CORE :: "string list" where
  "CORE = [''acoustic_guitar'', ''electric_guitar'', ''bass_guitar'', ''drum_kit'',
           ''piano'', ''organ'', ''brass'', ''strings'']"

text \<open>\<^verbatim>\<open>pretty\<close>, on the keys of \<^verbatim>\<open>CORE\<close>; its default branch is never reached from
  there and returns the key here.\<close>

definition pretty :: "string \<Rightarrow> string" where
  "pretty k =
     (if k = ''drum_kit'' then ''Drum Kit (acoustic)''
      else if k = ''bass_guitar'' then ''Bass Guitar''
      else if k = ''electric_guitar'' then ''Electric Guitar''
      else if k = ''acoustic_guitar'' then ''Acoustic Guitar''
      else if k = ''piano'' then ''Piano''
      else if k = ''organ'' then ''Organ''
      else if k = ''brass'' then ''Brass (section)''
      else if k = ''strings'' then ''Strings (section)''
      else k)"

text \<open>The score \<^verbatim>\<open>meanCombined * 0.7 + posCombined * 0.3\<close>.\<close>

definition core_score :: "decision_trace \<Rightarrow> string \<Rightarrow> rat" where
  "core_score t k =
     fadd (fmul (mean_combined t k) (round_double (7 / 10)))
          (fmul (pos_combined t k) (round_double (3 / 10)))"

definition core_candidates :: "decision_trace \<Rightarrow> (string \<times> rat) list" where
  "core_candidates t = map (\<lambda>k. (k, core_score t k)) (filter (pass t) CORE)"

text \<open>The value of \<^verbatim>\<open>parsed.instruments\<close> after the block \<^verbatim>\<open>MIX-ONLY RESCUE\<close>.\<close>

definition analyzeWithEnsemble_rescue :: "string list \<Rightarrow> decision_trace option \<Rightarrow> string list" where
  "analyzeWithEnsemble_rescue insts dt =
     (case dt of
        None \<Rightarrow> insts
      | Some t \<Rightarrow>
          if insts = [] then
            (let picks = map (\<lambda>x. pretty (fst x)) (take MAX_PICKS (sort_by_score_desc (core_candidates t)))
             in if picks \<noteq> [] then picks else insts)
          else insts)"

text \<open>Traces for the examples: PANNs and YAMNet report on one key, with the given
  booster entries.\<close>

definition key_trace ::
  "string \<Rightarrow> rat \<Rightarrow> rat \<Rightarrow> rat \<Rightarrow> rat \<Rightarrow> boost_entry list \<Rightarrow> decision_trace" where
  "key_trace k pm pp ym yp bs =
     \<lparr>panns = \<lparr>mean_probs = [k \<mapsto> pm], pos_ratio = [k \<mapsto> pp]\<rparr>,
      yamnet = \<lparr>mean_probs = [k \<mapsto> ym], pos_ratio = [k \<mapsto> yp]\<rparr>,
      boosts = bs\<rparr>"

section \<open>Properties of the instrument finalizer\<close>


subsection \<open>Auxiliary facts\<close>

lemma emit_distinct: "distinct final \<Longrightarrow> distinct (emit S final xs)"
  by (induction xs arbitrary: final) auto

lemma set_emit: "set (emit S final xs) = set final \<union> (set xs \<inter> set S)"
  by (induction xs arbitrary: final) auto

lemma set_stable_dedupe: "set (stable_dedupe out xs) = set out \<union> (set xs - {[]})"
  by (induction xs arbitrary: out) auto

subsection \<open>No duplicates, no empty labels\<close>

text \<open>
  Claim C10. For every ensemble, probe-rescue and additional list, the list returned by
  the finalizer of \<^verbatim>\<open>finalize_instruments.js\<close> has no duplicate entry and no empty string.
\<close>

theorem C10_finalize_distinct_nonempty:
  "distinct (finalizeInstruments x y z) \<and> [] \<notin> set (finalizeInstruments x y z)"
proof -
  define out where "out = stable_dedupe [] (map normalize (x @ y @ z))"
  define S where "S = strings_guard (woodwind_step (brass_step out))"
  have fin: "finalizeInstruments x y z = emit S (emit S [] out) [''Brass'', ''Woodwinds'']"
    by (simp add: finalizeInstruments_def out_def S_def Let_def)
  have d: "distinct (finalizeInstruments x y z)"
    unfolding fin by (intro emit_distinct) simp
  have "[] \<notin> set out" by (simp add: out_def set_stable_dedupe)
  then have "[] \<notin> set (finalizeInstruments x y z)"
    unfolding fin by (auto simp: set_emit)
  with d show ?thesis by simp
qed

subsection \<open>Running the finalizer on its own output\<close>

text \<open>
  Claim C5 (idempotence) fails for \<^verbatim>\<open>finalize_instruments.js\<close>. For the
  ensemble list \<open>["Trumpet"]\<close> it returns \<open>["Brass"]\<close>: the section label it adds to
  \<^verbatim>\<open>outSet\<close> is never pushed to the result. Finalizing \<open>["Brass"]\<close> again rewrites
  it to \<open>"Brass (section)"\<close> by the alias table and returns
  \<open>["Brass (section)", "Brass"]\<close>.
\<close>

theorem C5_finalize_not_idempotent_at_trumpet:
  "finalizeInstruments [''Trumpet''] [] [] = [''Brass'']
   \<and> finalizeInstruments (finalizeInstruments [''Trumpet''] [] []) [] []
       = [''Brass (section)'', ''Brass'']"
  by code_simp

section \<open>Properties of the track merge\<close>

lemma unionInto_prefix: "\<exists>ys. unionInto arr vs = arr @ ys"
proof (induction vs arbitrary: arr)
  case Nil
  show ?case by simp
next
  case (Cons v vs)
  show ?case
  proof (cases "v \<in> set arr")
    case True
    with Cons[of arr] show ?thesis by simp
  next
    case False
    from Cons[of "arr @ [v]"] obtain ys where "unionInto (arr @ [v]) vs = (arr @ [v]) @ ys" ..
    with False show ?thesis by simp
  qed
qed

lemma set_unionInto: "set (unionInto arr vs) = set arr \<union> set vs"
  by (induction vs arbitrary: arr) auto

lemma instrument_mergeTrack:
  "instrument (creative (mergeTrack oldRec newRec)) =
     Arr (unionInto (toArray (instrument (creative oldRec))) (toArray (instrumentsToMerge newRec)))"
  by (simp add: mergeTrack_def Let_def)

lemma toArray_Arr: "toArray (Arr xs) = xs"
  by (simp add: toArray_def truthy_def)

lemma toArray_instrumentsToMerge:
  "toArray (instrumentsToMerge r) = first_nonempty (code_sources r) (instrument (creative r))"
  by (simp add: instrumentsToMerge_def code_sources_def toArray_def)

text \<open>
  Claim C3 (instrument precedence), as the code has it. For every old and new record, the
  merged \<^verbatim>\<open>creative.instrument\<close> is the old list followed by the unseen values of the
  first non-empty array among \<^verbatim>\<open>analysis.finalInstruments\<close> (camel case),
  \<^verbatim>\<open>analysis.instruments\<close>, root \<^verbatim>\<open>finalInstruments\<close>, root \<^verbatim>\<open>instruments\<close> and
  \<^verbatim>\<open>creative.suggestedInstruments\<close>, or else of the legacy \<^verbatim>\<open>creative.instrument\<close>.
\<close>

theorem C3_instrument_precedence:
  "toArray (instrument (creative (mergeTrack oldRec newRec))) =
     unionInto (toArray (instrument (creative oldRec)))
       (first_nonempty (code_sources newRec) (instrument (creative newRec)))"
  by (simp add: instrument_mergeTrack toArray_Arr toArray_instrumentsToMerge)

text \<open>
  Claim C3 as stated puts the snake-case \<^verbatim>\<open>analysis.final_instruments\<close> first. The merge
  never reads that key for the selection: with \<^verbatim>\<open>final_instruments = ["Piano"]\<close> and
  \<^verbatim>\<open>instruments = ["Organ"]\<close> under \<^verbatim>\<open>analysis\<close>, the merged list is \<open>["Organ"]\<close>,
  where the stated order selects \<open>["Piano"]\<close>.
\<close>

theorem C3_stated_precedence_counterexample:
  "toArray (instrument (creative (mergeTrack empty_track example_track)))
   \<noteq> unionInto (toArray (instrument (creative empty_track)))
        (first_nonempty (stated_sources example_track) (instrument (creative example_track)))"
  by (simp add: mergeTrack_def example_track_def empty_track_def empty_creative_def
      instrumentsToMerge_def an_field_def nonempty_array_def toArray_def truthy_def
      stated_sources_def)

text \<open>
  Claim C9. For every pair of old and new records, the merged \<^verbatim>\<open>creative.instrument\<close>
  starts with the old list in its old order, so every instrument stored before the upsert
  is still present after it; its values are those of the old list and of the selected
  list together.
\<close>

theorem C9_merge_keeps_old_instruments:
  "(\<exists>ys. toArray (instrument (creative (mergeTrack oldRec newRec)))
          = toArray (instrument (creative oldRec)) @ ys)
   \<and> set (toArray (instrument (creative oldRec)))
       \<subseteq> set (toArray (instrument (creative (mergeTrack oldRec newRec))))
   \<and> set (toArray (instrument (creative (mergeTrack oldRec newRec))))
       = set (toArray (instrument (creative oldRec))) \<union> set (toArray (instrumentsToMerge newRec))"
  using unionInto_prefix[of "toArray (instrument (creative oldRec))"
      "toArray (instrumentsToMerge newRec)"]
  by (auto simp: instrument_mergeTrack toArray_Arr set_unionInto)

section \<open>Properties of the track keys\<close>

lemma of_char_lower_char:
  "(of_char (lower_char c) :: nat) =
     (let n = of_char c in
      if (65 \<le> n \<and> n \<le> 90) \<or> (192 \<le> n \<and> n \<le> 222 \<and> n \<noteq> 215) then n + 32 else n)"
  by (auto simp: lower_char_def Let_def)

lemma lower_char_eq_iff:
  assumes "(of_char k :: nat) < 65"
  shows "lower_char c = k \<longleftrightarrow> c = k"
proof
  assume "lower_char c = k"
  then have "(of_char (lower_char c) :: nat) = of_char k" by simp
  with assms have "(of_char c :: nat) = of_char k"
    by (auto simp: of_char_lower_char Let_def split: if_splits)
  then show "c = k" by (rule of_char_eqI)
next
  assume "c = k"
  with assms show "lower_char c = k" by (simp add: lower_char_def Let_def)
qed

lemma lower_char_slash [simp]: "lower_char c = CHR ''/'' \<longleftrightarrow> c = CHR ''/''"
  by (rule lower_char_eq_iff) simp

lemma lower_char_dot [simp]: "lower_char c = CHR ''.'' \<longleftrightarrow> c = CHR ''.''"
  by (rule lower_char_eq_iff) simp

lemma lower_char_idem [simp]: "lower_char (lower_char c) = lower_char c"
proof -
  have "(of_char (lower_char (lower_char c)) :: nat) = of_char (lower_char c)"
    by (simp add: of_char_lower_char[of "lower_char c"] Let_def) (auto simp: of_char_lower_char Let_def)
  then show ?thesis by (rule of_char_eqI)
qed

lemma lower_char_backslash [simp]: "lower_char c = CHR 0x5C \<longleftrightarrow> c = CHR 0x5C"
proof
  assume "lower_char c = CHR 0x5C"
  then have "(of_char (lower_char c) :: nat) = 92" by simp
  then have "(of_char c :: nat) = of_char (CHR 0x5C)"
    by (auto simp: of_char_lower_char Let_def split: if_splits)
  then show "c = CHR 0x5C" by (rule of_char_eqI)
next
  assume "c = CHR 0x5C"
  then show "lower_char c = CHR 0x5C" by (simp add: lower_char_def Let_def)
qed


lemma split_slash_nonempty [simp]: "split_slash p \<noteq> []"
  by (induction p) (auto split: list.splits)

lemma split_slash_lower: "split_slash (toLowerCase p) = map toLowerCase (split_slash p)"
proof (induction p)
  case Nil
  show ?case by (simp add: toLowerCase_def)
next
  case (Cons c cs)
  then show ?case
    by (cases "split_slash cs") (auto simp: toLowerCase_def)
qed

lemma lower_eq_Nil [simp]: "toLowerCase s = [] \<longleftrightarrow> s = []"
  by (simp add: toLowerCase_def)

lemma lower_eq_dot [simp]: "toLowerCase s = ''.'' \<longleftrightarrow> s = ''.''"
  by (cases s) (auto simp: toLowerCase_def)

lemma lower_eq_dotdot [simp]: "toLowerCase s = ''..'' \<longleftrightarrow> s = ''..''"
proof (cases s)
  case Nil
  then show ?thesis by (simp add: toLowerCase_def)
next
  case (Cons a t)
  then show ?thesis by (cases t) (auto simp: toLowerCase_def)
qed

lemma lower_char_fixed [simp]:
  "lower_char CHR ''.'' = CHR ''.''" "lower_char CHR ''/'' = CHR ''/''"
  by (simp_all add: lower_char_def)

lemma toLowerCase_simps [simp]:
  "toLowerCase [] = []" "toLowerCase (c # cs) = lower_char c # toLowerCase cs"
  "toLowerCase (a @ b) = toLowerCase a @ toLowerCase b"
  by (simp_all add: toLowerCase_def)

lemma last_lower_dotdot:
  "res \<noteq> [] \<Longrightarrow> last (map toLowerCase res) = ''..'' \<longleftrightarrow> last res = ''..''"
  by (simp add: last_map)

lemma segment_step_lower:
  "segment_step a (map toLowerCase res) (toLowerCase seg) = map toLowerCase (segment_step a res seg)"
proof (cases "res = []")
  case True
  then show ?thesis by (simp add: segment_step_def)
next
  case False
  then show ?thesis
    by (simp add: segment_step_def last_lower_dotdot map_butlast)
qed

lemma foldl_segment_step_lower:
  "foldl (segment_step a) (map toLowerCase res) (map toLowerCase segs)
   = map toLowerCase (foldl (segment_step a) res segs)"
  by (induction segs arbitrary: res) (simp_all add: segment_step_lower)

lemma join_slash_lower: "join_slash (map toLowerCase ss) = toLowerCase (join_slash ss)"
  by (induction ss rule: join_slash.induct) simp_all

lemma normalizeString_lower: "normalizeString (toLowerCase p) a = toLowerCase (normalizeString p a)"
  using foldl_segment_step_lower[of a "[]" "split_slash p"]
  by (simp add: normalizeString_def split_slash_lower join_slash_lower)

lemma hd_lower_slash: "p \<noteq> [] \<Longrightarrow> hd (toLowerCase p) = CHR ''/'' \<longleftrightarrow> hd p = CHR ''/''"
  by (cases p) (simp_all add: toLowerCase_def)

lemma last_lower_slash: "p \<noteq> [] \<Longrightarrow> last (toLowerCase p) = CHR ''/'' \<longleftrightarrow> last p = CHR ''/''"
  by (simp add: toLowerCase_def last_map)

lemma posix_normalize_lower: "posix_normalize (toLowerCase p) = toLowerCase (posix_normalize p)"
proof (cases "p = []")
  case True
  then show ?thesis by (simp add: posix_normalize_def)
next
  case False
  show ?thesis
    using False
    by (simp add: posix_normalize_def Let_def hd_lower_slash last_lower_slash
        normalizeString_lower)
qed

lemma toLowerCase_idem: "toLowerCase (toLowerCase s) = toLowerCase s"
  by (simp add: toLowerCase_def)

lemma replace_lower: "replace_backslashes (toLowerCase s) = toLowerCase (replace_backslashes s)"
  by (induction s) (simp_all add: replace_backslashes_def)

lemma replace_idem: "replace_backslashes (replace_backslashes s) = replace_backslashes s"
  by (simp add: replace_backslashes_def)

lemma rewrite_path_idem: "rewrite_path (rewrite_path p) = rewrite_path p"
  by (simp add: rewrite_path_def replace_lower toLowerCase_idem replace_idem)

lemma rewrite_path_Nil: "rewrite_path p = [] \<longleftrightarrow> p = []"
  by (simp add: rewrite_path_def replace_backslashes_def)

lemma key_case_collapse:
  "normalizeKey posix_normalize (toLowerCase p) = normalizeKey posix_normalize p"
  by (simp add: normalizeKey_def posix_normalize_lower replace_lower toLowerCase_idem)

lemma key_rewrite_commuting:
  assumes "path_normalize (rewrite_path p) = rewrite_path (path_normalize p)"
  shows "normalizeKey path_normalize (rewrite_path p) = normalizeKey path_normalize p"
  using assms rewrite_path_idem[of "path_normalize p"]
  by (simp add: normalizeKey_def rewrite_path_Nil) (simp add: rewrite_path_def)

lemma upsert_same_key:
  assumes "upsertTrack nrm tracks r1 = Inr (k1, t1)" "upsertTrack nrm t1 r2 = Inr (k2, t2)"
    "normalizeKey nrm (path r1) = normalizeKey nrm (path r2)"
  shows "k1 = k2 \<and> dom t2 = (if k1 = ''__proto__'' \<and> tracks k1 = None then dom tracks
                              else insert k1 (dom tracks))"
  using assms by (auto simp: upsertTrack_def Let_def split: if_splits)

lemma lower_char_underscore [simp]: "lower_char c = CHR ''_'' \<longleftrightarrow> c = CHR ''_''"
proof
  assume "lower_char c = CHR ''_''"
  then have "(of_char (lower_char c) :: nat) = 95" by simp
  then have "(of_char c :: nat) = of_char (CHR ''_'')"
    by (auto simp: of_char_lower_char Let_def split: if_splits)
  then show "c = CHR ''_''" by (rule of_char_eqI)
next
  assume "c = CHR ''_''"
  then show "lower_char c = CHR ''_''" by (simp add: lower_char_def Let_def)
qed

lemma lower_char_nbsp [simp]: "lower_char c = CHR 0xA0 \<longleftrightarrow> c = CHR 0xA0"
proof
  assume "lower_char c = CHR 0xA0"
  then have "(of_char (lower_char c) :: nat) = 160" by simp
  then have "(of_char c :: nat) = of_char (CHR 0xA0)"
    by (auto simp: of_char_lower_char Let_def split: if_splits)
  then show "c = CHR 0xA0" by (rule of_char_eqI)
next
  assume "c = CHR 0xA0"
  then show "lower_char c = CHR 0xA0" by (simp add: lower_char_def Let_def)
qed

lemma lower_char_below_65 [simp]:
  "lower_char c = CHR 0x09 \<longleftrightarrow> c = CHR 0x09" "lower_char c = CHR 0x0A \<longleftrightarrow> c = CHR 0x0A"
  "lower_char c = CHR 0x0B \<longleftrightarrow> c = CHR 0x0B" "lower_char c = CHR 0x0C \<longleftrightarrow> c = CHR 0x0C"
  "lower_char c = CHR 0x0D \<longleftrightarrow> c = CHR 0x0D" "lower_char c = CHR '' '' \<longleftrightarrow> c = CHR '' ''"
  "lower_char c = CHR ''('' \<longleftrightarrow> c = CHR ''(''" "lower_char c = CHR '')'' \<longleftrightarrow> c = CHR '')''"
  by (rule lower_char_eq_iff, simp)+

lemma lower_char_space [simp]: "lower_char CHR '' '' = CHR '' ''"
  by (simp add: lower_char_def)

lemma js_space_lower [simp]: "js_space (lower_char c) = js_space c"
  by (simp add: js_space_def)

lemma dropWhile_lower:
  assumes "\<And>c. P (lower_char c) = P c"
  shows "dropWhile P (toLowerCase s) = toLowerCase (dropWhile P s)"
  using assms by (induction s) simp_all

lemma takeWhile_lower:
  assumes "\<And>c. P (lower_char c) = P c"
  shows "takeWhile P (toLowerCase s) = toLowerCase (takeWhile P s)"
  using assms by (induction s) simp_all

lemma rev_lower: "rev (toLowerCase s) = toLowerCase (rev s)"
  by (simp add: toLowerCase_def rev_map)

lemma tl_lower: "tl (toLowerCase s) = toLowerCase (tl s)"
  by (cases s) simp_all

lemma trim_lower: "trim (toLowerCase s) = toLowerCase (trim s)"
  by (simp add: trim_def dropWhile_lower rev_lower)

lemma collapse_spaces_lower:
  "collapse_spaces b (toLowerCase s) = toLowerCase (collapse_spaces b s)"
  by (induction s arbitrary: b) simp_all

lemma stem_core_lower: "stem_core (toLowerCase s) = toLowerCase (stem_core s)"
proof -
  have f: "filter (\<lambda>c. c \<noteq> CHR ''('' \<and> c \<noteq> CHR '')'') (toLowerCase s)
      = toLowerCase (filter (\<lambda>c. c \<noteq> CHR ''('' \<and> c \<noteq> CHR '')'') s)"
    by (induction s) simp_all
  have m: "map (\<lambda>c. if c = CHR ''_'' then CHR '' '' else c) (toLowerCase u)
      = toLowerCase (map (\<lambda>c. if c = CHR ''_'' then CHR '' '' else c) u)" for u
    by (induction u) simp_all
  show ?thesis by (simp add: stem_core_def f m collapse_spaces_lower trim_lower)
qed

lemma normalizeStem_lower: "normalizeStem (toLowerCase s) = normalizeStem s"
  by (simp add: normalizeStem_def stem_core_lower toLowerCase_idem)

lemma posix_basename_lower: "posix_basename (toLowerCase p) = toLowerCase (posix_basename p)"
  by (simp add: posix_basename_def rev_lower dropWhile_lower takeWhile_lower)

lemma posix_dirname_lower: "posix_dirname (toLowerCase p) = toLowerCase (posix_dirname p)"
proof (cases "p = []")
  case True
  then show ?thesis by (simp add: posix_dirname_def)
next
  case False
  define r where "r = dropWhile (\<lambda>c. c \<noteq> CHR ''/'') (dropWhile (\<lambda>c. c = CHR ''/'') (rev (tl p)))"
  have r': "dropWhile (\<lambda>c. c \<noteq> CHR ''/'') (dropWhile (\<lambda>c. c = CHR ''/'') (rev (tl (toLowerCase p))))
      = toLowerCase r"
    unfolding r_def by (simp only: tl_lower rev_lower) (simp add: dropWhile_lower)
  have h: "hd (toLowerCase p) = lower_char (hd p)" using False by (cases p) simp_all
  have ne: "toLowerCase p \<noteq> []" using False by simp
  have L: "posix_dirname (toLowerCase p) =
      (if toLowerCase r = [] then (if lower_char (hd p) = CHR ''/'' then ''/'' else ''.'')
       else if lower_char (hd p) = CHR ''/'' \<and> tl (toLowerCase r) = [] then ''//''
       else lower_char (hd p) # rev (tl (toLowerCase r)))"
    unfolding posix_dirname_def Let_def r' h using ne by (simp only: if_False)
  have R: "posix_dirname p =
      (if r = [] then (if hd p = CHR ''/'' then ''/'' else ''.'')
       else if hd p = CHR ''/'' \<and> tl r = [] then ''//''
       else hd p # rev (tl r))"
    unfolding posix_dirname_def Let_def r_def using False by (simp only: if_False)
  have t: "tl (toLowerCase r) = [] \<longleftrightarrow> tl r = []" by (simp add: tl_lower)
  have v: "lower_char (hd p) # rev (tl (toLowerCase r)) = toLowerCase (hd p # rev (tl r))"
    by (simp add: tl_lower rev_lower)
  show ?thesis
  proof (cases "r = []")
    case True
    then show ?thesis unfolding L R by simp
  next
    case rne: False
    show ?thesis
    proof (cases "hd p = CHR ''/'' \<and> tl r = []")
      case True
      then show ?thesis unfolding L R using rne t by simp
    next
      case False
      with rne t show ?thesis unfolding L R by (simp add: tl_lower rev_lower)
    qed
  qed
qed

lemma lib_key_case_collapse:
  "normalizeKey_pathNormalize posix_dirname posix_basename (toLowerCase p)
   = normalizeKey_pathNormalize posix_dirname posix_basename p"
  by (simp add: normalizeKey_pathNormalize_def posix_dirname_lower posix_basename_lower
      normalizeStem_lower toLowerCase_idem)

text \<open>
  Claim C2 (key canonicalization), as the code has it, for each of the two
  \<^verbatim>\<open>normalizeKey\<close> functions. In \<^verbatim>\<open>jsondb.js\<close>, whose key \<^verbatim>\<open>upsertTrack\<close> uses, the
  key of a path \<open>p\<close> is the path normalized by \<^verbatim>\<open>path.normalize\<close>, then rewritten
  (backslashes replaced, lower case); the empty path has the empty key. With POSIX
  normalization, paths that differ only in letter case have the same key. The equation
  \<open>key(p) = key(lowercase(replace(p)))\<close> holds for every \<open>p\<close> on which normalization
  commutes with the rewriting. Two records whose paths have the same key are upserted
  under the same key, which becomes an entry of \<^verbatim>\<open>tracks\<close> unless it is
  \<^verbatim>\<open>__proto__\<close> without an entry of its own. In \<^verbatim>\<open>lib/pathNormalize\<close> the key is the
  lower-cased directory name, a slash and the normalized stem of the base name; no
  backslash is replaced; with the POSIX directory and base name, paths that differ only
  in letter case have the same key.
\<close>

theorem C2_key_canonicalization:
  "normalizeKey path_normalize p = (if p = [] then [] else rewrite_path (path_normalize p))
   \<and> normalizeKey posix_normalize (toLowerCase p) = normalizeKey posix_normalize p
   \<and> (path_normalize (rewrite_path p) = rewrite_path (path_normalize p)
        \<longrightarrow> normalizeKey path_normalize (rewrite_path p) = normalizeKey path_normalize p)
   \<and> (normalizeKey path_normalize (path r1) = normalizeKey path_normalize (path r2)
        \<and> upsertTrack path_normalize tracks r1 = Inr (k1, t1)
        \<and> upsertTrack path_normalize t1 r2 = Inr (k2, t2)
        \<longrightarrow> k1 = k2 \<and> dom t2 = (if k1 = ''__proto__'' \<and> tracks k1 = None then dom tracks
                                     else insert k1 (dom tracks)))
   \<and> normalizeKey_pathNormalize path_dirname path_basename p
       = toLowerCase (path_dirname p) @ ''/'' @ toLowerCase (stem_core (path_basename p))
   \<and> normalizeKey_pathNormalize posix_dirname posix_basename (toLowerCase p)
       = normalizeKey_pathNormalize posix_dirname posix_basename p"
proof -
  have a: "normalizeKey path_normalize p = (if p = [] then [] else rewrite_path (path_normalize p))"
    by (simp add: normalizeKey_def rewrite_path_def)
  have b: "normalizeKey_pathNormalize path_dirname path_basename p
       = toLowerCase (path_dirname p) @ ''/'' @ toLowerCase (stem_core (path_basename p))"
    by (simp add: normalizeKey_pathNormalize_def normalizeStem_def toLowerCase_idem)
  have c: "path_normalize (rewrite_path p) = rewrite_path (path_normalize p)
        \<longrightarrow> normalizeKey path_normalize (rewrite_path p) = normalizeKey path_normalize p"
    using key_rewrite_commuting[of path_normalize p] by (rule impI)
  have d: "normalizeKey path_normalize (path r1) = normalizeKey path_normalize (path r2)
        \<and> upsertTrack path_normalize tracks r1 = Inr (k1, t1)
        \<and> upsertTrack path_normalize t1 r2 = Inr (k2, t2)
        \<longrightarrow> k1 = k2 \<and> dom t2 = (if k1 = ''__proto__'' \<and> tracks k1 = None then dom tracks
                                     else insert k1 (dom tracks))"
    using upsert_same_key[of path_normalize tracks r1 k1 t1 r2 k2 t2] by (intro impI) (elim conjE)
  from a key_case_collapse[of p] c d b lib_key_case_collapse[of p] show ?thesis
    by (intro conjI)
qed

theorem C2_key_canonicalization_witness:
  "posix_normalize (rewrite_path mixed_path) = rewrite_path (posix_normalize mixed_path)
   \<and> normalizeKey posix_normalize (rewrite_path mixed_path) = normalizeKey posix_normalize mixed_path
   \<and> normalizeKey posix_normalize mixed_path = ''/music/song.mp3''
   \<and> normalizeKey posix_normalize (path example_track)
       = normalizeKey posix_normalize (path (example_track\<lparr>path := ''/music/Song.MP3''\<rparr>))
   \<and> upsertTrack posix_normalize Map.empty example_track
       = Inr (''/music/song.mp3'', [''/music/song.mp3'' \<mapsto> mergeTrack empty_track example_track])
   \<and> upsertTrack posix_normalize [''/music/song.mp3'' \<mapsto> mergeTrack empty_track example_track]
         (example_track\<lparr>path := ''/music/Song.MP3''\<rparr>)
       = Inr (''/music/song.mp3'',
              [''/music/song.mp3'' \<mapsto> mergeTrack (mergeTrack empty_track example_track)
                 (example_track\<lparr>path := ''/music/Song.MP3''\<rparr>)])
   \<and> dom [''/music/song.mp3'' \<mapsto> mergeTrack (mergeTrack empty_track example_track)
                 (example_track\<lparr>path := ''/music/Song.MP3''\<rparr>)] = {''/music/song.mp3''}
   \<and> normalizeKey_pathNormalize posix_dirname posix_basename ''/Music/My_Song (Final).MP3''
       = ''/music/my song final.mp3''"
proof -
  let ?k = "''/music/song.mp3''"
  let ?r2 = "example_track\<lparr>path := ''/music/Song.MP3''\<rparr>"
  let ?t1 = "[?k \<mapsto> mergeTrack empty_track example_track]"
  let ?t2 = "[?k \<mapsto> mergeTrack (mergeTrack empty_track example_track) ?r2]"
  have h: "posix_normalize (rewrite_path mixed_path) = rewrite_path (posix_normalize mixed_path)"
    by code_simp
  have kv: "normalizeKey posix_normalize mixed_path = ?k" by code_simp
  have k1: "normalizeKey posix_normalize (path example_track) = ?k" by code_simp
  have k2: "normalizeKey posix_normalize (path ?r2) = ?k"
    by (simp add: example_track_def) code_simp
  have np: "?k \<noteq> ''__proto__''" by simp
  have u1: "upsertTrack posix_normalize Map.empty example_track = Inr (?k, ?t1)"
    by (simp add: upsertTrack_def Let_def k1)
  have u2: "upsertTrack posix_normalize ?t1 ?r2 = Inr (?k, ?t2)"
    unfolding upsertTrack_def Let_def k2 by simp
  have lk: "normalizeKey_pathNormalize posix_dirname posix_basename ''/Music/My_Song (Final).MP3''
       = ''/music/my song final.mp3''"
    by code_simp
  note inst = C2_key_canonicalization[of posix_normalize mixed_path example_track ?r2 Map.empty
      ?k ?t1 ?k ?t2 posix_dirname posix_basename]
  from inst have "posix_normalize (rewrite_path mixed_path) = rewrite_path (posix_normalize mixed_path)
      \<longrightarrow> normalizeKey posix_normalize (rewrite_path mixed_path) = normalizeKey posix_normalize mixed_path"
    by (elim conjE)
  with h
  have c: "normalizeKey posix_normalize (rewrite_path mixed_path) = normalizeKey posix_normalize mixed_path"
    by (rule rev_mp)
  have keq: "normalizeKey posix_normalize (path example_track) = normalizeKey posix_normalize (path ?r2)"
    by (simp only: k1 k2)
  from inst have "normalizeKey posix_normalize (path example_track) = normalizeKey posix_normalize (path ?r2)
        \<and> upsertTrack posix_normalize Map.empty example_track = Inr (?k, ?t1)
        \<and> upsertTrack posix_normalize ?t1 ?r2 = Inr (?k, ?t2)
        \<longrightarrow> ?k = ?k \<and> dom ?t2 = (if ?k = ''__proto__'' \<and> (None :: track_rec option) = None
               then dom (Map.empty :: string \<rightharpoonup> track_rec)
               else insert ?k (dom (Map.empty :: string \<rightharpoonup> track_rec)))"
    by (elim conjE)
  moreover have "normalizeKey posix_normalize (path example_track) = normalizeKey posix_normalize (path ?r2)
        \<and> upsertTrack posix_normalize Map.empty example_track = Inr (?k, ?t1)
        \<and> upsertTrack posix_normalize ?t1 ?r2 = Inr (?k, ?t2)"
    using keq u1 u2 by (intro conjI)
  ultimately have "?k = ?k \<and> dom ?t2 = (if ?k = ''__proto__'' \<and> (None :: track_rec option) = None
               then dom (Map.empty :: string \<rightharpoonup> track_rec)
               else insert ?k (dom (Map.empty :: string \<rightharpoonup> track_rec)))"
    by (rule mp)
  then have d: "dom ?t2 = (if ?k = ''__proto__'' \<and> (None :: track_rec option) = None
               then dom (Map.empty :: string \<rightharpoonup> track_rec)
               else insert ?k (dom (Map.empty :: string \<rightharpoonup> track_rec)))"
    by (rule conjunct2)
  from d np have d': "dom ?t2 = {?k}" by simp
  show ?thesis using h c kv keq u1 u2 d' lk by (intro conjI)
qed

text \<open>
  Claim C2 as stated fails on POSIX for both functions. In \<^verbatim>\<open>jsondb.js\<close>, for
  \<^verbatim>\<open>a\\b\<close> (two backslashes) normalization leaves the path alone, so its key is
  \<open>a//b\<close>, while the rewritten path \<open>a//b\<close> is normalized to \<open>a/b\<close>. In
  \<^verbatim>\<open>lib/pathNormalize\<close>, for \<^verbatim>\<open>a\b\<close> the backslash stays in the key, while the
  rewritten path \<open>a/b\<close> has the key \<open>a/b\<close>.
\<close>

theorem C2_rewriting_counterexample:
  "normalizeKey posix_normalize double_backslash_path
     \<noteq> normalizeKey posix_normalize (rewrite_path double_backslash_path)
   \<and> normalizeKey_pathNormalize posix_dirname posix_basename backslash_path
     \<noteq> normalizeKey_pathNormalize posix_dirname posix_basename (rewrite_path backslash_path)"
  by code_simp

section \<open>Properties of the tempo override\<close>

lemma js_round_half: "js_round (of_int B * (1 / 2)) = (B + 1) div 2"
proof -
  have "of_int B * (1 / 2) + 1 / 2 = (of_int (B + 1) :: rat) / of_int 2" by (simp add: field_simps)
  then show ?thesis unfolding js_round_def by (simp only: floor_divide_of_int_eq)
qed

lemma js_round_double: "js_round (of_int B * 2) = 2 * B"
proof -
  have "\<lfloor>(of_int (2 * B) :: rat) + 1 / 2\<rfloor> = 2 * B" by linarith
  then show ?thesis by (simp add: js_round_def mult.commute)
qed

text \<open>
  Claim C6 (BPM override), as the code has it. When the TBPM tag parses to an integer
  \<open>B\<close> in \<open>[1,399]\<close>, the record has \<open>bpm = B\<close> whatever the estimator returned. Its
  \<open>tempo_source\<close> is \<open>"id3"\<close> when the estimate differs from \<open>B\<close>; when the estimate
  already equals \<open>B\<close> the estimator's label stays. The alternate tempos
  \<open>round(B/2) = (B+1) div 2\<close> and \<open>round(2B) = 2B\<close> are present exactly when they lie in
  \<open>[50,200]\<close>.
\<close>

theorem C6_bpm_override:
  assumes "parseId3BpmSafe tag = Some B" "1 \<le> B" "B \<le> 399"
  shows "bpm (bpm_override est src tag) = Some (of_int B)
    \<and> tempo_source (bpm_override est src tag) = (if est = Some (of_int B) then src else ''id3'')
    \<and> tempo_alt_half_bpm (bpm_override est src tag)
        = (if 50 \<le> js_round (of_int B / 2) \<and> js_round (of_int B / 2) \<le> 200
           then Some (js_round (of_int B / 2)) else None)
    \<and> tempo_alt_double_bpm (bpm_override est src tag)
        = (if 50 \<le> js_round (of_int B * 2) \<and> js_round (of_int B * 2) \<le> 200
           then Some (js_round (of_int B * 2)) else None)
    \<and> js_round (of_int B / 2) = (B + 1) div 2 \<and> js_round (of_int B * 2) = 2 * B"
  using assms js_round_half[of B] js_round_double[of B]
  by (auto simp: bpm_override_def Let_def alt_in_range_def)

text \<open>The tag \<open>"148 bpm"\<close> over an estimate of 98: \<open>bpm = 148\<close>, source \<open>"id3"\<close>, half
  tempo 74, no double tempo (296 is outside the range).\<close>

theorem C6_bpm_override_witness:
  "parseId3BpmSafe (TagStr ''148 bpm'') = Some 148 \<and> (1::int) \<le> 148 \<and> (148::int) \<le> 399
   \<and> bpm (bpm_override (Some 98) ''thirds'' (TagStr ''148 bpm'')) = Some 148
   \<and> tempo_source (bpm_override (Some 98) ''thirds'' (TagStr ''148 bpm'')) = ''id3''
   \<and> tempo_alt_half_bpm (bpm_override (Some 98) ''thirds'' (TagStr ''148 bpm'')) = Some 74
   \<and> tempo_alt_double_bpm (bpm_override (Some 98) ''thirds'' (TagStr ''148 bpm'')) = None"
proof -
  have p: "parseId3BpmSafe (TagStr ''148 bpm'') = Some 148" by code_simp
  from C6_bpm_override[OF p, of "Some 98" "''thirds''"] p show ?thesis by simp
qed

text \<open>
  Claim C6 as stated gives \<open>tempo_source = "id3"\<close> regardless of the estimator's output.
  With an estimate of 120 labelled \<open>"thirds"\<close> and a tag of 120, the label stays
  \<open>"thirds"\<close>.
\<close>

theorem C6_source_counterexample:
  "tempo_source (bpm_override (Some 120) ''thirds'' (TagNum 120)) \<noteq> ''id3''"
  by code_simp

section \<open>Properties of the confidence value\<close>

text \<open>
  Claim C8 (confidence parsing), as the code has it. For every raw value the stored
  confidence lies in \<open>[0,1]\<close>. A number is divided by 100 when it is greater than 1,
  then clamped. A string loses its first percent sign and surrounding white space and is
  read by \<^verbatim>\<open>parseFloat\<close>; a finite result is treated like a number, anything else gives
  the default 0.7, as does a raw value that is neither number nor string.
\<close>

theorem C8_confidence_coercion:
  "0 \<le> stored_confidence parseFloat raw \<and> stored_confidence parseFloat raw \<le> 1
   \<and> stored_confidence parseFloat (ConfNum n) = min 1 (max 0 (if n > 1 then n / 100 else n))
   \<and> stored_confidence parseFloat (ConfStr s) =
       (case parseFloat (trim (remove_first_percent s)) of
          Some num \<Rightarrow> min 1 (max 0 (if num > 1 then num / 100 else num))
        | None \<Rightarrow> 7 / 10)
   \<and> stored_confidence parseFloat ConfOther = 7 / 10"
proof -
  have r: "0 \<le> clamp01 x \<and> clamp01 x \<le> 1" for x
    by (cases x) (simp_all add: clamp01_def)
  show ?thesis
    using r[of "parseConfidence parseFloat raw"]
    by (simp add: stored_confidence_def)
       (simp add: parseConfidence_def clamp01_def percent_scale_def split: option.split)
qed

text \<open>
  Claim C8 as stated halves a number greater than 1. For the raw number 85 the code
  stores \<open>85/100\<close>; halving would give \<open>42.5\<close>, clamped to 1.
\<close>

theorem C8_halving_counterexample:
  "stored_confidence parseFloat_decimal (ConfNum 85) = 17 / 20
   \<and> clamp01 (Finite (stated_halving 85)) = 1
   \<and> stored_confidence parseFloat_decimal (ConfNum 85) \<noteq> clamp01 (Finite (stated_halving 85))"
  by code_simp

section \<open>Order of the background phases\<close>

text \<open>
  Claim C1, as the code has it. In every mode, CONCURRENT included, the Instrumentation
  phase of a track starts only after the Creative phase of that track has completed, and
  it receives the creative result; the two modes run the same sequence.
\<close>

theorem C1_instrumentation_after_creative:
  "snd (background_phases INSTRUMENTATION_MODE reply classify []) =
     [CreativeStarted, CreativeCompleted, InstrumentationStarted, InstrumentationCompleted]
   \<and> fst (background_phases INSTRUMENTATION_MODE reply classify []) = (reply, classify reply)
   \<and> background_phases INSTRUMENTATION_MODE reply classify trace
       = background_phases ''SEQUENTIAL'' reply classify trace
   \<and> occurs_before CreativeCompleted InstrumentationStarted
        (snd (background_phases INSTRUMENTATION_MODE reply classify []))"
  by (simp add: background_phases_def await_runCreativeAnalysis_def
      await_runInstrumentationAnalysis_def occurs_before_def)

text \<open>
  Claim C1 as stated lets Instrumentation start before Creative has completed in
  CONCURRENT mode. In the trace of that mode the start of Instrumentation does not come
  before the completion of Creative.
\<close>

theorem C1_concurrent_mode_counterexample:
  "\<not> occurs_before InstrumentationStarted CreativeCompleted
       (snd (background_phases ''CONCURRENT'' () (\<lambda>c. ()) []))"
  by (simp add: background_phases_def await_runCreativeAnalysis_def
      await_runInstrumentationAnalysis_def occurs_before_def)

section \<open>Properties of the mix-only rescue\<close>

lemma mset_sort_by_score_desc: "mset (sort_by_score_desc ps) = mset ps"
  by (simp add: sort_by_score_desc_def)

lemma sorted_sort_by_score_desc: "sorted_wrt (\<lambda>a b. snd b \<le> snd a) (sort_by_score_desc ps)"
proof -
  have "sorted (map (\<lambda>p. - snd p) (sort_by_score_desc ps))"
    unfolding sort_by_score_desc_def by (rule sorted_sort_key)
  then show ?thesis by (simp add: sorted_map)
qed

lemma length_mixOnlyRescue: "length (mixOnlyRescue dt) \<le> 4"
  by (cases dt) (simp_all add: mixOnlyRescue_def MAX_PICKS_def)

lemma push_boosted_Nil: "push_boosted insts ls = [] \<longleftrightarrow> insts = [] \<and> set ls \<subseteq> {[]}"
  by (induction ls arbitrary: insts) auto

lemma foldl_push_boosted_Nil:
  "foldl push_boosted insts lss = [] \<longleftrightarrow> insts = [] \<and> set (concat lss) \<subseteq> {[]}"
  by (induction lss arbitrary: insts) (auto simp: push_boosted_Nil)

lemma runEnsemble_rescue:
  "runEnsemble_instruments insts False t =
     (if normalizePyResult_instruments insts t = [] then mixOnlyRescue (Some t)
      else normalizePyResult_instruments insts t)"
  by (simp add: runEnsemble_instruments_def Let_def)

lemma analyzeWithEnsemble_rescue_empty:
  "analyzeWithEnsemble_rescue [] (Some t) =
     map (\<lambda>x. pretty (fst x)) (take 4 (sort_by_score_desc (core_candidates t)))"
  by (simp add: analyzeWithEnsemble_rescue_def Let_def MAX_PICKS_def)

text \<open>
  Claim C7 (mix-only rescue), as the code has it. \<^verbatim>\<open>runEnsemble\<close> first merges the
  booster labels of \<^verbatim>\<open>decision_trace.boosts\<close> into the instruments; the merged list is
  empty iff the classifier returned none and no booster carries a non-empty label. When
  it is empty and stem separation was not used, the instruments are the result of
  \<^verbatim>\<open>mixOnlyRescue\<close>: at most four labels, over the six candidates electric guitar,
  acoustic guitar, bass guitar, drum kit, piano and organ. A candidate passes iff
  \<^verbatim>\<open>mean_panns + mean_yamnet >= 0.006\<close> and \<^verbatim>\<open>pos_panns + pos_yamnet >= 0.02\<close>, or
  \<^verbatim>\<open>pos_panns >= 0.06\<close>, the sums and the thresholds being doubles. The labels
  emitted are the first four of the passing candidates ranked by the double
  \<^verbatim>\<open>mean + pos\<close>, highest first. The rescue block of \<^verbatim>\<open>analyzeWithEnsemble\<close>
  applies the same pass rule to those six keys plus brass and strings, ranks by the
  double \<^verbatim>\<open>mean * 0.7 + pos * 0.3\<close> and picks the display names of the first four.
\<close>

theorem C7_mix_only_rescue:
  "runEnsemble_instruments insts False t =
     (if normalizePyResult_instruments insts t = [] then mixOnlyRescue (Some t)
      else normalizePyResult_instruments insts t)
   \<and> (normalizePyResult_instruments insts t = [])
       = (insts = [] \<and> set (concat (map booster_labels (boosts t))) \<subseteq> {[]})
   \<and> length (mixOnlyRescue dt) \<le> 4
   \<and> map fst CANDIDATES = [''electric_guitar'', ''acoustic_guitar'', ''bass_guitar'',
        ''drum_kit'', ''piano'', ''organ'']
   \<and> pass t k =
       ((fadd (or0 (mean_probs (panns t) k)) (or0 (mean_probs (yamnet t) k)) \<ge> round_double (6 / 1000)
         \<and> fadd (or0 (pos_ratio (panns t) k)) (or0 (pos_ratio (yamnet t) k)) \<ge> round_double (2 / 100))
        \<or> or0 (pos_ratio (panns t) k) \<ge> round_double (6 / 100))
   \<and> mix_picks t = map (\<lambda>(key, label). (label, fadd (mean_combined t key) (pos_combined t key)))
                      (filter (\<lambda>(key, label). pass t key) CANDIDATES)
   \<and> (\<exists>ranked. mset ranked = mset (mix_picks t)
         \<and> sorted_wrt (\<lambda>a b. snd b \<le> snd a) ranked
         \<and> mixOnlyRescue (Some t) = map fst (take 4 ranked))
   \<and> set CORE = fst ` set CANDIDATES \<union> {''brass'', ''strings''}
   \<and> core_candidates t =
       map (\<lambda>k. (k, fadd (fmul (mean_combined t k) (round_double (7 / 10)))
                        (fmul (pos_combined t k) (round_double (3 / 10)))))
         (filter (pass t) CORE)
   \<and> (\<exists>ranked. mset ranked = mset (core_candidates t)
         \<and> sorted_wrt (\<lambda>a b. snd b \<le> snd a) ranked
         \<and> analyzeWithEnsemble_rescue [] (Some t) = map (\<lambda>x. pretty (fst x)) (take 4 ranked))"
proof -
  have a: "\<exists>ranked. mset ranked = mset (mix_picks t)
         \<and> sorted_wrt (\<lambda>a b. snd b \<le> snd a) ranked
         \<and> mixOnlyRescue (Some t) = map fst (take 4 ranked)"
    by (rule exI[of _ "sort_by_score_desc (mix_picks t)"])
       (simp add: mset_sort_by_score_desc sorted_sort_by_score_desc mixOnlyRescue_def MAX_PICKS_def)
  have b: "\<exists>ranked. mset ranked = mset (core_candidates t)
         \<and> sorted_wrt (\<lambda>a b. snd b \<le> snd a) ranked
         \<and> analyzeWithEnsemble_rescue [] (Some t) = map (\<lambda>x. pretty (fst x)) (take 4 ranked)"
    by (rule exI[of _ "sort_by_score_desc (core_candidates t)"])
       (simp add: mset_sort_by_score_desc sorted_sort_by_score_desc analyzeWithEnsemble_rescue_empty)
  have c: "map fst CANDIDATES = [''electric_guitar'', ''acoustic_guitar'', ''bass_guitar'',
        ''drum_kit'', ''piano'', ''organ'']"
    by (simp add: CANDIDATES_def)
  have d: "set CORE = fst ` set CANDIDATES \<union> {''brass'', ''strings''}"
    by (simp add: CORE_def CANDIDATES_def insert_commute)
  have e: "pass t k =
       ((fadd (or0 (mean_probs (panns t) k)) (or0 (mean_probs (yamnet t) k)) \<ge> round_double (6 / 1000)
         \<and> fadd (or0 (pos_ratio (panns t) k)) (or0 (pos_ratio (yamnet t) k)) \<ge> round_double (2 / 100))
        \<or> or0 (pos_ratio (panns t) k) \<ge> round_double (6 / 100))"
    by (simp only: pass_def mean_combined_def pos_combined_def MEAN_ANY_def POS_ANY_def
        PANN_POS_BONUS_def)
  have f: "(normalizePyResult_instruments insts t = [])
       = (insts = [] \<and> set (concat (map booster_labels (boosts t))) \<subseteq> {[]})"
    unfolding normalizePyResult_instruments_def by (rule foldl_push_boosted_Nil)
  have g: "core_candidates t =
       map (\<lambda>k. (k, fadd (fmul (mean_combined t k) (round_double (7 / 10)))
                        (fmul (pos_combined t k) (round_double (3 / 10)))))
         (filter (pass t) CORE)"
    by (simp only: core_candidates_def core_score_def)
  from runEnsemble_rescue[of insts t] f length_mixOnlyRescue[of dt] c e mix_picks_def[of t] a d g b
  show ?thesis by (intro conjI)
qed

text \<open>
  Claim C7 as stated has brass among the candidates of the rescue that runs when stem
  separation was not used. With a trace in which brass passes (mean and positive ratio
  one half) and no booster, \<^verbatim>\<open>runEnsemble\<close> still returns no instrument.
\<close>

theorem C7_brass_counterexample:
  "pass (key_trace ''brass'' (1 / 2) (1 / 2) 0 0 []) ''brass''
   \<and> runEnsemble_instruments [] False (key_trace ''brass'' (1 / 2) (1 / 2) 0 0 []) = []"
  by code_simp

text \<open>The trace of the specification's third scenario: electric guitar passes by its
  PANNs positive ratio of 0.07 and is picked on both paths.\<close>

lemma rescue_example_electric_guitar:
  "runEnsemble_instruments [] False
     (key_trace ''electric_guitar'' (round_double (1 / 100)) (round_double (7 / 100)) 0 0 [])
     = [''Electric Guitar'']
   \<and> analyzeWithEnsemble_rescue []
       (Some (key_trace ''electric_guitar'' (round_double (1 / 100)) (round_double (7 / 100)) 0 0 []))
     = [''Electric Guitar'']"
  by code_simp

text \<open>Rounding decides at the threshold: with a mean of 0.01, the positive ratios
  0.002 and 0.018 add up to a double below 0.02 and piano fails, while 0.005 and 0.015
  add up to the double 0.02 and piano passes.\<close>

lemma rescue_example_rounding:
  "mixOnlyRescue (Some (key_trace ''piano'' (round_double (1 / 100)) (round_double (2 / 1000))
      0 (round_double (18 / 1000)) [])) = []
   \<and> mixOnlyRescue (Some (key_trace ''piano'' (round_double (1 / 100)) (round_double (5 / 1000))
      0 (round_double (15 / 1000)) [])) = [''Piano'']"
  by code_simp

text \<open>A booster label keeps the rescue from running: the list is no longer empty.\<close>

lemma rescue_example_booster:
  "runEnsemble_instruments [] False
     (key_trace ''piano'' (1 / 2) (1 / 2) 0 0 [\<lparr>boost_added = Some [''Brass (section)''], boost_add = None\<rparr>])
     = [''Brass (section)'']"
  by code_simp

end
